theory Spec2Isabelle
  imports Complex_Main "HOL-Library.Sublist"
begin

section \<open>Process map: layout, grouping and click wiring\<close>

text \<open>
  A shallow embedding of \<^verbatim>\<open>src/components/process-map/process-map.tsx\<close> and of the size
  computation of \<^verbatim>\<open>custom-nodes.tsx\<close>.

  Conventions of the model.
  \<^item> A JavaScript \<^verbatim>\<open>number\<close> that passes \<^verbatim>\<open>Number.isFinite\<close> is a rational (\<^typ>\<open>rat\<close>);
    arithmetic is exact, the rounding of IEEE doubles is not part of the model. A numeric
    field that may be missing or not finite is a \<^typ>\<open>rat option\<close>.
  \<^item> An object used as a dictionary (\<^verbatim>\<open>Record<string, T>\<close>) is a map from strings, read by
    its own keys; \<^verbatim>\<open>a ?? b\<close> is the case distinction on the looked-up option.
  \<^item> An object with fixed fields is a record; the extension slot of the record stands for
    every field the code never names, so that the object spread \<^verbatim>\<open>{...node, f: v}\<close> is a
    record update.
  \<^item> Reading a property of \<^verbatim>\<open>undefined\<close> raises \<^verbatim>\<open>TypeError\<close>; the model returns it as a value.
  \<^item> Names are those of the source. Fields that several objects share, or that would hide a
    constant of the logic, carry a prefix (\<^verbatim>\<open>node_id\<close>, \<^verbatim>\<open>pos_x\<close>, \<^verbatim>\<open>phase_width\<close>); the fields
    \<^verbatim>\<open>nodes\<close> and \<^verbatim>\<open>edges\<close> of the result are called as the caller binds them,
    \<^verbatim>\<open>layoutedNodes\<close> and \<^verbatim>\<open>layoutedEdges\<close>.
\<close>

subsection \<open>Data model\<close>

datatype error = TypeError

text \<open>\<^verbatim>\<open>{ width: number; height: number }\<close> and \<^verbatim>\<open>{ x: number; y: number }\<close>.\<close>

record extent =
  width :: rat
  height :: rat

record point =
  pos_x :: rat
  pos_y :: rat

text \<open>\<^verbatim>\<open>NodeData\<close> of custom-nodes.tsx: only \<^verbatim>\<open>sizeMultiplier\<close> is ever written by the layout.\<close>

record node_data =
  label :: string
  sizeMultiplier :: "extent option"

text \<open>A node of the diagram, with the fields the layout reads or writes.\<close>

record 'd node =
  node_id :: string
  node_type :: string
  node_width :: "rat option"
  node_height :: "rat option"
  position :: point
  targetPosition :: "string option"
  sourcePosition :: "string option"
  data :: "'d node_data_scheme"

text \<open>An entry of \<^verbatim>\<open>phaseBoundaries\<close>.\<close>

record boundary =
  boundary_id :: string
  start :: rat
  bwidth :: rat

text \<open>The four-entry tables \<^verbatim>\<open>phaseWidthRatios\<close> and \<^verbatim>\<open>phaseWidths\<close>, read by field name.\<close>

record phase_table =
  phase1 :: rat
  phase2 :: rat
  phase3 :: rat
  phase4 :: rat

text \<open>
  The value returned by \<^verbatim>\<open>layoutNodesManually\<close>. The function never looks into
  \<^verbatim>\<open>edges\<close>, so their type is left open.
\<close>

record ('n, 'e) layout =
  layoutedNodes :: "'n list"
  layoutedEdges :: 'e
  phaseBoundaries :: "boundary list"

subsection \<open>Constants of layoutNodesManually (lines 39--69)\<close>

definition defaultNodeWidth :: "bool \<Rightarrow> rat" where
  "defaultNodeWidth isWorkflowList = (if isWorkflowList then 140 else 200)"

definition defaultNodeHeight :: "bool \<Rightarrow> rat" where
  "defaultNodeHeight isWorkflowList = (if isWorkflowList then 30 else 80)"

definition phaseSpacing :: rat where
  "phaseSpacing = 2"

definition squareSide :: "bool \<Rightarrow> rat" where
  "squareSide isWorkflowList = (if isWorkflowList then 100 else 140)"

definition phaseWidthRatios :: phase_table where
  "phaseWidthRatios =
     \<lparr>phase1 = 0.21875, phase2 = 0.234375, phase3 = 0.34375, phase4 = 0.203125\<rparr>"

definition nodeMultipliers :: "bool \<Rightarrow> string \<rightharpoonup> rat" where
  "nodeMultipliers isWorkflowList = map_of
     [(''req'', 100),
      (''eval'', if isWorkflowList then 99 else 100),
      (''prov'', if isWorkflowList then 90 else 93),
      (''reeval'', if isWorkflowList then 113 else 114),
      (''decide'', if isWorkflowList then 113 else 114),
      (''end'', if isWorkflowList then 99 else 100)]"

definition nodeSizeMultipliers :: "string \<rightharpoonup> extent" where
  "nodeSizeMultipliers = map_of
     [(''req'', \<lparr>width = 0.8, height = 0.4\<rparr>),
      (''eval'', \<lparr>width = 0.8, height = 0.4\<rparr>),
      (''prov'', \<lparr>width = 0.8, height = 0.4\<rparr>),
      (''reeval'', \<lparr>width = 0.8, height = 0.4\<rparr>),
      (''decide'', \<lparr>width = 0.6, height = 0.6\<rparr>),
      (''end'', \<lparr>width = 0.8, height = 0.4\<rparr>)]"

text \<open>\<^verbatim>\<open>a ?? b\<close> on a looked-up value.\<close>

definition orElse :: "'a option \<Rightarrow> 'a \<Rightarrow> 'a" where
  "orElse v d = (case v of None \<Rightarrow> d | Some a \<Rightarrow> a)"

subsection \<open>Node sizes (lines 71--88)\<close>

text \<open>
  \<^verbatim>\<open>multipliers\<close> of lines 80--82 (and again lines 189--191): the table entry of the id, or
  0.7 by 0.7, in the workflow list; 1 by 1 in every other view.
\<close>

definition multipliers :: "bool \<Rightarrow> string \<Rightarrow> extent" where
  "multipliers isWorkflowList nodeId =
     (if isWorkflowList
      then orElse (nodeSizeMultipliers nodeId) \<lparr>width = 0.7, height = 0.7\<rparr>
      else \<lparr>width = 1, height = 1\<rparr>)"

text \<open>The entry the body of the \<^verbatim>\<open>forEach\<close> stores for one node.\<close>

definition nodeSize :: "bool \<Rightarrow> ('d, 'z) node_scheme \<Rightarrow> extent" where
  "nodeSize isWorkflowList node =
     (let rawWidth = orElse (node_width node) (defaultNodeWidth isWorkflowList);
          rawHeight = orElse (node_height node) (defaultNodeHeight isWorkflowList);
          m = multipliers isWorkflowList (node_id node)
      in \<lparr>width = rawWidth * width m, height = rawHeight * height m\<rparr>)"

text \<open>The \<^verbatim>\<open>forEach\<close>: a later node of the same id overwrites the entry of an earlier one.\<close>

definition nodeSizeMap :: "bool \<Rightarrow> ('d, 'z) node_scheme list \<Rightarrow> string \<rightharpoonup> extent" where
  "nodeSizeMap isWorkflowList nodes =
     fold (\<lambda>node m. m(node_id node \<mapsto> nodeSize isWorkflowList node)) nodes Map.empty"

subsection \<open>Phase boundaries (lines 90--109)\<close>

definition phaseWidths :: "rat \<Rightarrow> phase_table" where
  "phaseWidths usableWidth =
     \<lparr>phase1 = usableWidth * phase1 phaseWidthRatios,
      phase2 = usableWidth * phase2 phaseWidthRatios,
      phase3 = usableWidth * phase3 phaseWidthRatios,
      phase4 = usableWidth * phase4 phaseWidthRatios\<rparr>"

definition phase1Start :: rat where
  "phase1Start = 0"

definition phase2Start :: "rat \<Rightarrow> rat" where
  "phase2Start viewportWidth = phase1Start + phase1 (phaseWidths viewportWidth)"

definition phase3Start :: "rat \<Rightarrow> rat" where
  "phase3Start viewportWidth = phase2Start viewportWidth + phase2 (phaseWidths viewportWidth)"

definition phase4Start :: "rat \<Rightarrow> rat" where
  "phase4Start viewportWidth = phase3Start viewportWidth + phase3 (phaseWidths viewportWidth)"

definition phaseBoundariesOf :: "rat \<Rightarrow> boundary list" where
  "phaseBoundariesOf viewportWidth =
     [\<lparr>boundary_id = ''phase1'', start = phase1Start,
        bwidth = phase1 (phaseWidths viewportWidth)\<rparr>,
      \<lparr>boundary_id = ''phase2'', start = phase2Start viewportWidth,
        bwidth = phase2 (phaseWidths viewportWidth)\<rparr>,
      \<lparr>boundary_id = ''phase3'', start = phase3Start viewportWidth,
        bwidth = phase3 (phaseWidths viewportWidth)\<rparr>,
      \<lparr>boundary_id = ''phase4'', start = phase4Start viewportWidth,
        bwidth = phase4 (phaseWidths viewportWidth)\<rparr>]"

subsection \<open>Positions of the six named nodes (lines 111--164)\<close>

text \<open>
  The table \<^verbatim>\<open>positions\<close>, as the list of its entries in insertion order (the order in which
  the \<^verbatim>\<open>for ... in\<close> of line 168 visits them). The sizes of req, eval, reeval, decide and end
  are read with \<^verbatim>\<open>nodeSizeMap[...].width\<close>, which raises when the entry is missing; the size
  of prov is never read here.
\<close>

definition positions ::
  "bool \<Rightarrow> (string \<rightharpoonup> extent) \<Rightarrow> rat \<Rightarrow> error + (string \<times> point) list" where
  "positions isWorkflowList sizeMap viewportWidth =
     (case sizeMap ''req'' of None \<Rightarrow> Inl TypeError | Some reqSize \<Rightarrow>
     (case sizeMap ''eval'' of None \<Rightarrow> Inl TypeError | Some evalSize \<Rightarrow>
     (case sizeMap ''reeval'' of None \<Rightarrow> Inl TypeError | Some reevalSize \<Rightarrow>
     (case sizeMap ''decide'' of None \<Rightarrow> Inl TypeError | Some decideSize \<Rightarrow>
     (case sizeMap ''end'' of None \<Rightarrow> Inl TypeError | Some endSize \<Rightarrow>
      (let pw = phaseWidths viewportWidth;
           mult = (\<lambda>k. orElse (nodeMultipliers isWorkflowList k) 100);
           reqWidth = width reqSize;
           reqX = ((phase1Start + (phase1 pw - reqWidth) / 2) * mult ''req'') / 100;
           evalWidth = width evalSize;
           evalX = ((phase2Start viewportWidth + (phase2 pw - evalWidth) / 2) * mult ''eval'')
                     / 100;
           reevalWidth = width reevalSize;
           decideWidth = width decideSize;
           phase3Center = phase3Start viewportWidth + phase3 pw / 2;
           loopWidth = squareSide isWorkflowList + phaseSpacing + reevalWidth;
           provX = ((phase3Center - loopWidth / 2) * mult ''prov'') / 100;
           sharedCenterX = (phase3Center * mult ''reeval'') / 100;
           reevalX = sharedCenterX - reevalWidth / 2;
           decideX = sharedCenterX - decideWidth / 2;
           endWidth = width endSize;
           decideHeight = height decideSize;
           endHeight = height endSize;
           endX = min (((phase4Start viewportWidth + (phase4 pw - endWidth) / 2) * mult ''end'')
                         / 100)
                      (viewportWidth - endWidth);
           endY = squareSide isWorkflowList + (decideHeight - endHeight) / 2
       in Inr [(''req'', \<lparr>pos_x = max reqX 0, pos_y = 0\<rparr>),
               (''eval'', \<lparr>pos_x = max evalX (phase2Start viewportWidth), pos_y = 0\<rparr>),
               (''prov'', \<lparr>pos_x = provX, pos_y = 0\<rparr>),
               (''reeval'', \<lparr>pos_x = reevalX, pos_y = 0\<rparr>),
               (''decide'', \<lparr>pos_x = decideX, pos_y = squareSide isWorkflowList\<rparr>),
               (''end'', \<lparr>pos_x = endX, pos_y = endY\<rparr>)]))))))"

subsection \<open>Vertical centering (lines 166--173)\<close>

definition maxBottom :: "bool \<Rightarrow> (string \<rightharpoonup> extent) \<Rightarrow> (string \<times> point) list \<Rightarrow> rat" where
  "maxBottom isWorkflowList sizeMap posns =
     fold (\<lambda>(nodeId, pos) mb.
             max mb (pos_y pos
               + orElse (map_option height (sizeMap nodeId)) (defaultNodeHeight isWorkflowList)))
          posns 0"

definition verticalOffset :: "rat \<Rightarrow> rat \<Rightarrow> rat" where
  "verticalOffset viewportHeight mb = max ((viewportHeight - mb) / 2) 0"

subsection \<open>The laid-out nodes and the result (lines 175--196)\<close>

definition layoutNode ::
  "bool \<Rightarrow> (string \<times> point) list \<Rightarrow> rat \<Rightarrow> ('d, 'z) node_scheme \<Rightarrow> ('d, 'z) node_scheme" where
  "layoutNode isWorkflowList posns vOffset node =
     (let pos = orElse (map_of posns (node_id node)) \<lparr>pos_x = 0, pos_y = 0\<rparr>
      in node
         \<lparr>targetPosition := Some ''top'',
          sourcePosition := Some ''bottom'',
          position :=
            \<lparr>pos_x = (if isWorkflowList \<and> node_id node = ''decide''
                      then pos_x pos + 2 else pos_x pos),
             pos_y = pos_y pos + vOffset\<rparr>,
          data := (data node)\<lparr>sizeMultiplier :=
                    Some (multipliers isWorkflowList (node_id node))\<rparr>\<rparr>)"

definition layoutNodesManually ::
  "('d, 'z) node_scheme list \<Rightarrow> 'e \<Rightarrow> rat \<Rightarrow> rat \<Rightarrow> string
     \<Rightarrow> error + (('d, 'z) node_scheme, 'e) layout" where
  "layoutNodesManually nodes edges viewportWidth viewportHeight expandedView =
     (let isWorkflowList = (expandedView = ''workflow-list'');
          sizeMap = nodeSizeMap isWorkflowList nodes
      in case positions isWorkflowList sizeMap viewportWidth of
           Inl e \<Rightarrow> Inl e
         | Inr posns \<Rightarrow>
             (let vOffset = verticalOffset viewportHeight
                              (maxBottom isWorkflowList sizeMap posns)
              in Inr \<lparr>layoutedNodes = map (layoutNode isWorkflowList posns vOffset) nodes,
                      layoutedEdges = edges,
                      phaseBoundaries = phaseBoundariesOf viewportWidth\<rparr>))"



subsection \<open>layoutNodesManually on a store of node objects\<close>

text \<open>
  The same function with the node objects in a store, to speak about what it writes. A
  store is the list of the objects allocated so far and a reference is an index into it;
  \<^verbatim>\<open>nodes\<close> is the list of the references of the input nodes. The \<^verbatim>\<open>forEach\<close> of line 72
  reads each node through its reference. The \<^verbatim>\<open>map\<close> of line 176 reads each node and puts
  the object literal it builds into the store as a new object; the two tables
  \<^verbatim>\<open>nodeSizeMap\<close> and \<^verbatim>\<open>positions\<close> are local to the call. The array \<^verbatim>\<open>edges\<close> is
  handed back as it came.
\<close>

definition alloc :: "'a list \<Rightarrow> 'a \<Rightarrow> nat \<times> 'a list" where
  "alloc store obj = (length store, store @ [obj])"

fun mapNodes :: "('a \<Rightarrow> 'a) \<Rightarrow> nat list \<Rightarrow> 'a list \<Rightarrow> nat list \<times> 'a list" where
  "mapNodes f [] store = ([], store)"
| "mapNodes f (ref # refs) store =
     (case alloc store (f (store ! ref)) of (ref', store1) \<Rightarrow>
      (case mapNodes f refs store1 of (refs', store2) \<Rightarrow> (ref' # refs', store2)))"

definition nodeSizeMapOnStore ::
  "bool \<Rightarrow> nat list \<Rightarrow> ('d, 'z) node_scheme list \<Rightarrow> string \<rightharpoonup> extent" where
  "nodeSizeMapOnStore isWorkflowList nodes store =
     fold (\<lambda>ref m. m(node_id (store ! ref) \<mapsto> nodeSize isWorkflowList (store ! ref)))
       nodes Map.empty"

definition layoutNodesManuallyOnStore ::
  "nat list \<Rightarrow> 'e \<Rightarrow> rat \<Rightarrow> rat \<Rightarrow> string \<Rightarrow> ('d, 'z) node_scheme list
     \<Rightarrow> error + ((nat, 'e) layout \<times> ('d, 'z) node_scheme list)" where
  "layoutNodesManuallyOnStore nodes edges viewportWidth viewportHeight expandedView store =
     (let isWorkflowList = (expandedView = ''workflow-list'');
          sizeMap = nodeSizeMapOnStore isWorkflowList nodes store
      in case positions isWorkflowList sizeMap viewportWidth of
           Inl e \<Rightarrow> Inl e
         | Inr posns \<Rightarrow>
             (let vOffset = verticalOffset viewportHeight
                              (maxBottom isWorkflowList sizeMap posns)
              in case mapNodes (layoutNode isWorkflowList posns vOffset) nodes store of
                   (newNodes, store') \<Rightarrow>
                     Inr (\<lparr>layoutedNodes = newNodes, layoutedEdges = edges,
                           phaseBoundaries = phaseBoundariesOf viewportWidth\<rparr>, store')))"

section \<open>CustomNode: the size of a rendered node (custom-nodes.tsx)\<close>








section \<open>The ProcessMap component (process-map.tsx, lines 199--416)\<close>

subsection \<open>Phases and items\<close>



subsection \<open>Search filter and grouping (lines 233--269)\<close>




subsection \<open>Column widths (lines 406--416)\<close>



subsection \<open>Click wiring (lines 339--349 and 360)\<close>



subsection \<open>Debounced resize (lines 308--337)\<close>










section \<open>Sample inputs\<close>

text \<open>The six nodes of the diagram, none of them measured yet, and an item list.\<close>

definition sampleNode :: "string \<Rightarrow> string \<Rightarrow> unit node" where
  "sampleNode nodeId type =
     \<lparr>node_id = nodeId, node_type = type, node_width = None, node_height = None,
      position = \<lparr>pos_x = 0, pos_y = 0\<rparr>, targetPosition = None, sourcePosition = None,
      data = \<lparr>label = nodeId, sizeMultiplier = None\<rparr>\<rparr>"

definition sampleNodes :: "unit node list" where
  "sampleNodes =
     [sampleNode ''req'' ''startEnd'', sampleNode ''eval'' ''process'',
      sampleNode ''prov'' ''process'', sampleNode ''reeval'' ''process'',
      sampleNode ''decide'' ''decision'', sampleNode ''end'' ''startEnd'']"






section \<open>Facts about the layout\<close>

lemma orElse_simps: "orElse None d = d" "orElse (Some a) d = a"
  by (simp_all add: orElse_def)






lemma layout_Inr:
  assumes "layoutNodesManually nodes edges w h view = Inr r"
  obtains posns where
    "positions (view = ''workflow-list'') (nodeSizeMap (view = ''workflow-list'') nodes) w
       = Inr posns"
    "r = \<lparr>layoutedNodes = map (layoutNode (view = ''workflow-list'') posns
              (verticalOffset h (maxBottom (view = ''workflow-list'')
                 (nodeSizeMap (view = ''workflow-list'') nodes) posns))) nodes,
          layoutedEdges = edges, phaseBoundaries = phaseBoundariesOf w\<rparr>"
  using assms by (auto simp: layoutNodesManually_def Let_def split: sum.splits)

lemma positions_Inr:
  assumes "sizeMap ''req'' = Some rq" "sizeMap ''eval'' = Some ev" "sizeMap ''reeval'' = Some re"
    "sizeMap ''decide'' = Some de" "sizeMap ''end'' = Some en"
  shows "positions isWl sizeMap w = Inr
     [(''req'', \<lparr>pos_x = max (((phase1Start + (phase1 (phaseWidths w) - width rq) / 2)
                  * orElse (nodeMultipliers isWl ''req'') 100) / 100) 0, pos_y = 0\<rparr>),
      (''eval'', \<lparr>pos_x = max (((phase2Start w + (phase2 (phaseWidths w) - width ev) / 2)
                  * orElse (nodeMultipliers isWl ''eval'') 100) / 100) (phase2Start w),
                 pos_y = 0\<rparr>),
      (''prov'', \<lparr>pos_x = ((phase3Start w + phase3 (phaseWidths w) / 2
                      - (squareSide isWl + phaseSpacing + width re) / 2)
                  * orElse (nodeMultipliers isWl ''prov'') 100) / 100, pos_y = 0\<rparr>),
      (''reeval'', \<lparr>pos_x = ((phase3Start w + phase3 (phaseWidths w) / 2)
                  * orElse (nodeMultipliers isWl ''reeval'') 100) / 100 - width re / 2,
                   pos_y = 0\<rparr>),
      (''decide'', \<lparr>pos_x = ((phase3Start w + phase3 (phaseWidths w) / 2)
                  * orElse (nodeMultipliers isWl ''reeval'') 100) / 100 - width de / 2,
                  pos_y = squareSide isWl\<rparr>),
      (''end'', \<lparr>pos_x = min (((phase4Start w + (phase4 (phaseWidths w) - width en) / 2)
                  * orElse (nodeMultipliers isWl ''end'') 100) / 100) (w - width en),
                pos_y = squareSide isWl + (height de - height en) / 2\<rparr>)]"
  using assms by (simp add: positions_def Let_def)

lemma consts_simps:
  "phase1Start = 0" "phase2Start w = w * (7/32)" "phase3Start w = w * (29/64)"
  "phase4Start w = w * (51/64)"
  "phase1 (phaseWidths w) = w * (7/32)" "phase2 (phaseWidths w) = w * (15/64)"
  "phase3 (phaseWidths w) = w * (11/32)" "phase4 (phaseWidths w) = w * (13/64)"
  by (simp_all add: phase1Start_def phase2Start_def phase3Start_def phase4Start_def
      phaseWidths_def phaseWidthRatios_def field_simps)

lemma mult_simps:
  "orElse (nodeMultipliers isWl ''req'') 100 = 100"
  "orElse (nodeMultipliers isWl ''eval'') 100 = (if isWl then 99 else 100)"
  "orElse (nodeMultipliers isWl ''prov'') 100 = (if isWl then 90 else 93)"
  "orElse (nodeMultipliers isWl ''reeval'') 100 = (if isWl then 113 else 114)"
  "orElse (nodeMultipliers isWl ''end'') 100 = (if isWl then 99 else 100)"
  by (simp_all add: nodeMultipliers_def orElse_def)

lemma maxBottom_six:
  assumes "sizeMap ''req'' = Some rq" "sizeMap ''eval'' = Some ev" "sizeMap ''prov'' = Some pv"
    "sizeMap ''reeval'' = Some re" "sizeMap ''decide'' = Some de" "sizeMap ''end'' = Some en"
  shows "maxBottom isWl sizeMap
           [(''req'', \<lparr>pos_x = x1, pos_y = y1\<rparr>), (''eval'', \<lparr>pos_x = x2, pos_y = y2\<rparr>),
            (''prov'', \<lparr>pos_x = x3, pos_y = y3\<rparr>), (''reeval'', \<lparr>pos_x = x4, pos_y = y4\<rparr>),
            (''decide'', \<lparr>pos_x = x5, pos_y = y5\<rparr>), (''end'', \<lparr>pos_x = x6, pos_y = y6\<rparr>)]
         = max (max (max (max (max (max 0 (y1 + height rq)) (y2 + height ev)) (y3 + height pv))
                  (y4 + height re)) (y5 + height de)) (y6 + height en)"
  using assms by (simp add: maxBottom_def orElse_def)

subsection \<open>The sample diagram\<close>

lemma sample_sizes:
  "nodeSizeMap False sampleNodes ''req'' = Some \<lparr>width = 200, height = 80\<rparr>"
  "nodeSizeMap False sampleNodes ''eval'' = Some \<lparr>width = 200, height = 80\<rparr>"
  "nodeSizeMap False sampleNodes ''prov'' = Some \<lparr>width = 200, height = 80\<rparr>"
  "nodeSizeMap False sampleNodes ''reeval'' = Some \<lparr>width = 200, height = 80\<rparr>"
  "nodeSizeMap False sampleNodes ''decide'' = Some \<lparr>width = 200, height = 80\<rparr>"
  "nodeSizeMap False sampleNodes ''end'' = Some \<lparr>width = 200, height = 80\<rparr>"
  by (simp_all add: nodeSizeMap_def sampleNodes_def sampleNode_def nodeSize_def multipliers_def
      orElse_simps defaultNodeWidth_def defaultNodeHeight_def)

lemma sample_positions_1920:
  "positions False (nodeSizeMap False sampleNodes) 1920 = Inr
     [(''req'', \<lparr>pos_x = 110, pos_y = 0\<rparr>),
      (''eval'', \<lparr>pos_x = 545, pos_y = 0\<rparr>),
      (''prov'', \<lparr>pos_x = 95697 / 100, pos_y = 0\<rparr>),
      (''reeval'', \<lparr>pos_x = 1268, pos_y = 0\<rparr>),
      (''decide'', \<lparr>pos_x = 1268, pos_y = 140\<rparr>),
      (''end'', \<lparr>pos_x = 1625, pos_y = 140\<rparr>)]"
  by (simp add: positions_Inr [OF sample_sizes(1,2,4,5,6)] consts_simps mult_simps
      squareSide_def phaseSpacing_def)


lemma sample_maxBottom:
  "maxBottom False (nodeSizeMap False sampleNodes)
     [(''req'', \<lparr>pos_x = x1, pos_y = 0\<rparr>), (''eval'', \<lparr>pos_x = x2, pos_y = 0\<rparr>),
      (''prov'', \<lparr>pos_x = x3, pos_y = 0\<rparr>), (''reeval'', \<lparr>pos_x = x4, pos_y = 0\<rparr>),
      (''decide'', \<lparr>pos_x = x5, pos_y = 140\<rparr>), (''end'', \<lparr>pos_x = x6, pos_y = 140\<rparr>)] = 220"
  by (simp add: maxBottom_six [OF sample_sizes])

lemma sample_layout_1920:
  "layoutNodesManually sampleNodes edges 1920 540 ''balanced'' = Inr
     \<lparr>layoutedNodes = map (layoutNode False
         [(''req'', \<lparr>pos_x = 110, pos_y = 0\<rparr>),
          (''eval'', \<lparr>pos_x = 545, pos_y = 0\<rparr>),
          (''prov'', \<lparr>pos_x = 95697 / 100, pos_y = 0\<rparr>),
          (''reeval'', \<lparr>pos_x = 1268, pos_y = 0\<rparr>),
          (''decide'', \<lparr>pos_x = 1268, pos_y = 140\<rparr>),
          (''end'', \<lparr>pos_x = 1625, pos_y = 140\<rparr>)] 160) sampleNodes,
      layoutedEdges = edges, phaseBoundaries = phaseBoundariesOf 1920\<rparr>"
  by (simp add: layoutNodesManually_def sample_positions_1920 sample_maxBottom
      verticalOffset_def)




subsection \<open>The layout on a store\<close>

lemma mapNodes_eq:
  "\<forall>ref \<in> set refs. ref < length store \<Longrightarrow>
   mapNodes f refs store
     = ([length store ..< length store + length refs],
        store @ map (\<lambda>ref. f (store ! ref)) refs)"
proof (induction refs arbitrary: store)
  case Nil
  then show ?case by simp
next
  case (Cons ref refs)
  have valid: "\<forall>r \<in> set refs. r < length (store @ [f (store ! ref)])"
    using Cons.prems by auto
  have same: "map (\<lambda>r. f ((store @ [f (store ! ref)]) ! r)) refs
                = map (\<lambda>r. f (store ! r)) refs"
    using Cons.prems by (auto simp: nth_append)
  have upt: "[length store ..< length store + length (ref # refs)]
               = length store # [length (store @ [f (store ! ref)])
                                   ..< length (store @ [f (store ! ref)]) + length refs]"
    by (subst upt_rec) simp
  show ?case
    unfolding upt by (simp add: alloc_def Cons.IH [OF valid] same del: upt_Suc)
qed

lemma nodeSizeMapOnStore_eq:
  "nodeSizeMapOnStore isWl refs store = nodeSizeMap isWl (map ((!) store) refs)"
  by (simp add: nodeSizeMapOnStore_def nodeSizeMap_def fold_map comp_def)

lemma layoutNodesManuallyOnStore_eq:
  assumes "\<forall>ref \<in> set nodes. ref < length store"
  shows "layoutNodesManuallyOnStore nodes edges w h view store
     = (case layoutNodesManually (map ((!) store) nodes) edges w h view of
          Inl e \<Rightarrow> Inl e
        | Inr r \<Rightarrow>
            Inr (\<lparr>layoutedNodes = [length store ..< length store + length nodes],
                  layoutedEdges = edges, phaseBoundaries = phaseBoundaries r\<rparr>,
                 store @ layoutedNodes r))"
  by (simp add: layoutNodesManuallyOnStore_def layoutNodesManually_def Let_def
      nodeSizeMapOnStore_eq mapNodes_eq [OF assms] comp_def split: sum.splits)

section \<open>Facts about the component\<close>

subsection \<open>Grouping and column widths\<close>








subsection \<open>The resize machine\<close>









section \<open>The claims\<close>











text \<open>
  C5. Take two calls whose node references are valid in their stores and point to equal
  node values, with the same edges, viewport and view. Either both raise the same error,
  or both return, with equal node values, the edges they were given and equal phase
  boundaries; the returned node values are those of the function on values, so they
  depend on the arguments alone. A call that returns leaves every object that was in the
  store as it was (the nodes it returns are new objects).
\<close>

theorem layout_pure:
  fixes store1 store2 :: "('d, 'z) node_scheme list" and edges :: 'e
  assumes "\<forall>ref \<in> set nodes1. ref < length store1"
    and "\<forall>ref \<in> set nodes2. ref < length store2"
    and "map ((!) store1) nodes1 = map ((!) store2) nodes2"
  shows "(\<forall>e. layoutNodesManuallyOnStore nodes1 edges w h view store1 = Inl e
           \<longleftrightarrow> layoutNodesManuallyOnStore nodes2 edges w h view store2 = Inl e)
       \<and> (\<forall>r1 s1 r2 s2.
             layoutNodesManuallyOnStore nodes1 edges w h view store1 = Inr (r1, s1)
           \<and> layoutNodesManuallyOnStore nodes2 edges w h view store2 = Inr (r2, s2)
           \<longrightarrow> map ((!) s1) (layoutedNodes r1) = map ((!) s2) (layoutedNodes r2)
             \<and> layoutedEdges r1 = edges \<and> layoutedEdges r2 = edges
             \<and> phaseBoundaries r1 = phaseBoundaries r2)
       \<and> (\<forall>r1 s1.
             layoutNodesManuallyOnStore nodes1 edges w h view store1 = Inr (r1, s1)
           \<longrightarrow> take (length store1) s1 = store1
             \<and> (\<forall>ref \<in> set (layoutedNodes r1). length store1 \<le> ref \<and> ref < length s1)
             \<and> layoutNodesManually (map ((!) store1) nodes1) edges w h view
                 = Inr \<lparr>layoutedNodes = map ((!) s1) (layoutedNodes r1),
                        layoutedEdges = layoutedEdges r1,
                        phaseBoundaries = phaseBoundaries r1\<rparr>)"
proof -
  have nth_new: "map ((!) (store @ new)) [length store ..< length store + length new] = new"
    for store new :: "('d, 'z) node_scheme list"
    by (rule nth_equalityI) (simp_all add: nth_append)
  have len: "length (layoutedNodes r) = length ns"
    if "layoutNodesManually ns edges w h view = Inr r"
    for ns :: "('d, 'z) node_scheme list" and r
    using that by (auto simp: layoutNodesManually_def Let_def split: sum.splits)
  have e: "layoutedEdges r = edges"
    if "layoutNodesManually ns edges w h view = Inr r"
    for ns :: "('d, 'z) node_scheme list" and r
    using that by (auto simp: layoutNodesManually_def Let_def split: sum.splits)
  note eq1 = layoutNodesManuallyOnStore_eq [OF assms(1), of edges w h view]
  note eq2 = layoutNodesManuallyOnStore_eq [OF assms(2), of edges w h view]
  have 1: "\<forall>e. layoutNodesManuallyOnStore nodes1 edges w h view store1 = Inl e
           \<longleftrightarrow> layoutNodesManuallyOnStore nodes2 edges w h view store2 = Inl e"
    unfolding eq1 eq2 assms(3) by (simp split: sum.splits)
  have 3: "take (length store1) s1 = store1
             \<and> (\<forall>ref \<in> set (layoutedNodes r1). length store1 \<le> ref \<and> ref < length s1)
             \<and> layoutNodesManually (map ((!) store1) nodes1) edges w h view
                 = Inr \<lparr>layoutedNodes = map ((!) s1) (layoutedNodes r1),
                        layoutedEdges = layoutedEdges r1,
                        phaseBoundaries = phaseBoundaries r1\<rparr>"
    if "layoutNodesManuallyOnStore nodes1 edges w h view store1 = Inr (r1, s1)" for r1 s1
  proof -
    from that obtain r where
      r: "layoutNodesManually (map ((!) store1) nodes1) edges w h view = Inr r"
      and r1: "r1 = \<lparr>layoutedNodes = [length store1 ..< length store1 + length nodes1],
                  layoutedEdges = edges, phaseBoundaries = phaseBoundaries r\<rparr>"
      and s1: "s1 = store1 @ layoutedNodes r"
      unfolding eq1 by (auto split: sum.splits)
    have l: "length (layoutedNodes r) = length nodes1" using len [OF r] by simp
    have "map ((!) s1) (layoutedNodes r1) = layoutedNodes r"
      unfolding r1 s1 using nth_new [of store1 "layoutedNodes r"] by (simp add: l)
    then show ?thesis using r e [OF r] by (simp add: r1 s1 l)
  qed
  have 2: "map ((!) s1) (layoutedNodes r1) = map ((!) s2) (layoutedNodes r2)
             \<and> layoutedEdges r1 = edges \<and> layoutedEdges r2 = edges
             \<and> phaseBoundaries r1 = phaseBoundaries r2"
    if a: "layoutNodesManuallyOnStore nodes1 edges w h view store1 = Inr (r1, s1)"
      and b: "layoutNodesManuallyOnStore nodes2 edges w h view store2 = Inr (r2, s2)"
    for r1 s1 r2 s2
  proof -
    from a obtain r where
      r: "layoutNodesManually (map ((!) store1) nodes1) edges w h view = Inr r"
      and r1: "r1 = \<lparr>layoutedNodes = [length store1 ..< length store1 + length nodes1],
                  layoutedEdges = edges, phaseBoundaries = phaseBoundaries r\<rparr>"
      and s1: "s1 = store1 @ layoutedNodes r"
      unfolding eq1 by (auto split: sum.splits)
    from b r obtain
      r2: "r2 = \<lparr>layoutedNodes = [length store2 ..< length store2 + length nodes2],
                  layoutedEdges = edges, phaseBoundaries = phaseBoundaries r\<rparr>"
      and s2: "s2 = store2 @ layoutedNodes r"
      unfolding eq2 assms(3) [symmetric] by (auto split: sum.splits)
    have l1: "length (layoutedNodes r) = length nodes1" using len [OF r] by simp
    have "length nodes1 = length nodes2"
      using assms(3) by (metis length_map)
    with l1 have l2: "length (layoutedNodes r) = length nodes2" by simp
    have "map ((!) s1) (layoutedNodes r1) = layoutedNodes r"
      unfolding r1 s1 using nth_new [of store1 "layoutedNodes r"] by (simp add: l1)
    moreover have "map ((!) s2) (layoutedNodes r2) = layoutedNodes r"
      unfolding r2 s2 using nth_new [of store2 "layoutedNodes r"] by (simp add: l2)
    ultimately show ?thesis by (simp add: r1 r2)
  qed
  from 1 2 3 show ?thesis by blast
qed

theorem layout_pure_witness:
  "\<exists>r1 s1 r2 s2.
     layoutNodesManuallyOnStore [0, 1, 2, 3, 4, 5] ''edges'' 1920 540 ''balanced'' sampleNodes
       = Inr (r1, s1)
   \<and> layoutNodesManuallyOnStore [1, 2, 3, 4, 5, 6] ''edges'' 1920 540 ''balanced''
         (sampleNode ''note'' ''process'' # sampleNodes)
       = Inr (r2, s2)
   \<and> map ((!) s1) (layoutedNodes r1) = map ((!) s2) (layoutedNodes r2)
   \<and> layoutedEdges r1 = ''edges''
   \<and> layoutedNodes r1 = [6, 7, 8, 9, 10, 11]
   \<and> take 6 s1 = sampleNodes"
proof -
  let ?store2 = "sampleNode ''note'' ''process'' # sampleNodes"
  have len: "length sampleNodes = 6" by (simp add: sampleNodes_def)
  have v1: "\<forall>ref \<in> set [0, 1, 2, 3, 4, 5]. ref < length sampleNodes"
    and v2: "\<forall>ref \<in> set [1, 2, 3, 4, 5, 6]. ref < length ?store2"
    by (simp_all add: len)
  have m1: "map ((!) sampleNodes) [0, 1, 2, 3, 4, 5] = sampleNodes"
    and m2: "map ((!) ?store2) [1, 2, 3, 4, 5, 6] = sampleNodes"
    by (simp_all add: sampleNodes_def)
  then have same: "map ((!) sampleNodes) [0, 1, 2, 3, 4, 5] = map ((!) ?store2) [1, 2, 3, 4, 5, 6]"
    by simp
  obtain r0 where r0: "layoutNodesManually sampleNodes ''edges'' 1920 540 ''balanced'' = Inr r0"
    by (simp add: sample_layout_1920)
  define r1 where "r1 = \<lparr>layoutedNodes = [6, 7, 8, 9, 10, 11 :: nat], layoutedEdges = ''edges'',
                         phaseBoundaries = phaseBoundaries r0\<rparr>"
  define s1 where "s1 = sampleNodes @ layoutedNodes r0"
  define r2 where "r2 = \<lparr>layoutedNodes = [7, 8, 9, 10, 11, 12 :: nat], layoutedEdges = ''edges'',
                         phaseBoundaries = phaseBoundaries r0\<rparr>"
  define s2 where "s2 = ?store2 @ layoutedNodes r0"
  have c1: "layoutNodesManuallyOnStore [0, 1, 2, 3, 4, 5] ''edges'' 1920 540 ''balanced''
              sampleNodes = Inr (r1, s1)"
    unfolding layoutNodesManuallyOnStore_eq [OF v1] m1 r0 r1_def s1_def
    by (simp add: len upt_rec)
  have c2: "layoutNodesManuallyOnStore [1, 2, 3, 4, 5, 6] ''edges'' 1920 540 ''balanced''
              ?store2 = Inr (r2, s2)"
    unfolding layoutNodesManuallyOnStore_eq [OF v2] m2 r0 r2_def s2_def
    by (simp add: len upt_rec)
  have n1: "layoutedNodes r1 = [6, 7, 8, 9, 10, 11]" by (simp add: r1_def)
  note t = layout_pure [OF v1 v2 same, of "''edges''" 1920 540 "''balanced''"]
  from t c1 c2 have a: "map ((!) s1) (layoutedNodes r1) = map ((!) s2) (layoutedNodes r2)"
    and b: "layoutedEdges r1 = ''edges''"
    by blast+
  from t c1 have "take (length sampleNodes) s1 = sampleNodes" by blast
  then have c: "take 6 s1 = sampleNodes" by (simp add: len)
  from c1 c2 a b n1 c show ?thesis by blast
qed









text \<open>
  C10. Whenever the layout returns, the edges of the result are the edges it was given,
  and every node of the result is the input node at the same index with new values in
  \<^verbatim>\<open>position\<close>, \<^verbatim>\<open>targetPosition\<close>, \<^verbatim>\<open>sourcePosition\<close> and \<^verbatim>\<open>data.sizeMultiplier\<close> only: the
  id, the type, every other field of the node and every other field of its data are those
  of the input.
\<close>

theorem layout_frame:
  assumes "layoutNodesManually nodes edges viewportWidth viewportHeight expandedView = Inr r"
  shows "layoutedEdges r = edges
       \<and> length (layoutedNodes r) = length nodes
       \<and> (\<forall>i < length nodes. \<exists>p t s m.
             layoutedNodes r ! i =
               (nodes ! i)\<lparr>position := p, targetPosition := t, sourcePosition := s,
                          data := (data (nodes ! i))\<lparr>sizeMultiplier := m\<rparr>\<rparr>)"
proof -
  from assms obtain posns where
    r: "r = \<lparr>layoutedNodes = map (layoutNode (expandedView = ''workflow-list'') posns
              (verticalOffset viewportHeight (maxBottom (expandedView = ''workflow-list'')
                 (nodeSizeMap (expandedView = ''workflow-list'') nodes) posns))) nodes,
          layoutedEdges = edges, phaseBoundaries = phaseBoundariesOf viewportWidth\<rparr>"
    by (rule layout_Inr)
  have "\<exists>p t s m. layoutNode isWl posns v n =
          n\<lparr>position := p, targetPosition := t, sourcePosition := s,
            data := (data n)\<lparr>sizeMultiplier := m\<rparr>\<rparr>" for isWl v and n :: "('a, 'b) node_scheme"
  proof -
    have "layoutNode isWl posns v n =
            n\<lparr>position := position (layoutNode isWl posns v n),
              targetPosition := Some ''top'', sourcePosition := Some ''bottom'',
              data := (data n)\<lparr>sizeMultiplier := Some (multipliers isWl (node_id n))\<rparr>\<rparr>"
      by (simp add: layoutNode_def Let_def)
    then show ?thesis by blast
  qed
  then show ?thesis by (simp add: r)
qed

theorem layout_frame_witness:
  "\<exists>r. layoutNodesManually sampleNodes ''edges'' 1920 540 ''balanced'' = Inr r
     \<and> layoutedEdges r = ''edges''
     \<and> length (layoutedNodes r) = 6
     \<and> node_id (layoutedNodes r ! 4) = ''decide''
     \<and> node_type (layoutedNodes r ! 4) = ''decision''
     \<and> label (data (layoutedNodes r ! 4)) = ''decide''"
proof -
  obtain r where r: "layoutNodesManually sampleNodes ''edges'' 1920 540 ''balanced'' = Inr r"
    by (simp add: sample_layout_1920)
  have len: "length sampleNodes = 6"
    and nth: "sampleNodes ! 4 = sampleNode ''decide'' ''decision''"
    by (simp_all add: sampleNodes_def)
  from layout_frame [OF r] have e: "layoutedEdges r = ''edges''"
    and l: "length (layoutedNodes r) = length sampleNodes"
    and fr: "\<forall>i < length sampleNodes. \<exists>p t s m.
             layoutedNodes r ! i =
               (sampleNodes ! i)\<lparr>position := p, targetPosition := t, sourcePosition := s,
                          data := (data (sampleNodes ! i))\<lparr>sizeMultiplier := m\<rparr>\<rparr>"
    by blast+
  have "4 < length sampleNodes" by (simp add: len)
  from fr [rule_format, OF this] obtain p t s m where
    "layoutedNodes r ! 4 =
       (sampleNodes ! 4)\<lparr>position := p, targetPosition := t, sourcePosition := s,
                        data := (data (sampleNodes ! 4))\<lparr>sizeMultiplier := m\<rparr>\<rparr>"
    by blast
  then have "node_id (layoutedNodes r ! 4) = ''decide''
           \<and> node_type (layoutedNodes r ! 4) = ''decision''
           \<and> label (data (layoutedNodes r ! 4)) = ''decide''"
    unfolding nth by (simp add: sampleNode_def)
  with r e l len show ?thesis by auto
qed

end
